theory Spec2Isabelle
  imports Complex_Main
begin

section \<open>Python values used by the notebooks\<close>

text \<open>
  Exceptions are values: a call that raises returns \<open>Inl\<close> of the exception, a call
  that returns gives \<open>Inr\<close> of its result. \<open>KeyError\<close> carries the missing key and
  \<open>ValueError\<close> its message; \<open>ExternalError\<close> stands for whatever an external
  service (transcript API, language-model API, retrieval chain) raises.
\<close>

datatype py_exn =
    KeyError string
  | IndexError
  | ValueError string
  | ExternalError string

text \<open>\<open>sep.join(parts)\<close> of Python.\<close>

fun join :: "string \<Rightarrow> string list \<Rightarrow> string" where
  "join sep [] = []"
| "join sep [x] = x"
| "join sep (x # y # ys) = x @ sep @ join sep (y # ys)"

text \<open>
  A Python \<open>dict\<close> with string keys, as the list of its items in insertion order.
  \<open>d[k]\<close> raises \<open>KeyError\<close> when the key is absent.
\<close>

type_synonym 'v dict = "(string \<times> 'v) list"

definition getitem :: "'v dict \<Rightarrow> string \<Rightarrow> py_exn + 'v" where
  "getitem d k = (case map_of d k of None \<Rightarrow> Inl (KeyError k) | Some v \<Rightarrow> Inr v)"

text \<open>\<open>xs[0]\<close> of Python: \<open>IndexError\<close> on the empty list.\<close>

definition first_item :: "'a list \<Rightarrow> py_exn + 'a" where
  "first_item xs = (case xs of [] \<Rightarrow> Inl IndexError | x # _ \<Rightarrow> Inr x)"

section \<open>The URL library\<close>

text \<open>
  \<open>urlparse\<close> and \<open>parse_qs\<close> come from \<open>urllib.parse\<close>, which is not part of the
  repository. The functions of the notebooks take them as a parameter: every theorem
  that quantifies over URLs holds for whatever the two library functions return.
  Of the parse result only the attributes the notebooks read are kept.
\<close>

record parsed_url =
  hostname :: "string option"
  path :: string
  query :: string

record urllib =
  urlparse :: "string \<Rightarrow> py_exn + parsed_url"
  parse_qs :: "string \<Rightarrow> string list dict"

text \<open>
  For closed evaluations, a model of the two functions on plain ASCII URLs of the shape
  \<open>scheme://[user@]host[:port]/path?query#fragment\<close>: no percent-escapes, no IPv6
  literal, no path parameters, no control characters. On these, \<open>urlparse\<close> cuts the
  scheme at the first colon, the network location at the next \<open>/\<close>, \<open>?\<close> or \<open>#\<close>,
  then the fragment and the query; the host name is the location without user
  information and port, in lower case, and \<open>None\<close> when empty. \<open>parse_qs\<close> splits the
  query at \<open>&\<close>, drops fields without \<open>=\<close> or with an empty value, and collects the
  values of each name in order.
\<close>

definition is_alpha :: "char \<Rightarrow> bool" where
  "is_alpha c = (let n = (of_char c :: nat) in (65 \<le> n \<and> n \<le> 90) \<or> (97 \<le> n \<and> n \<le> 122))"

definition is_scheme_char :: "char \<Rightarrow> bool" where
  "is_scheme_char c =
     (let n = (of_char c :: nat)
      in is_alpha c \<or> (48 \<le> n \<and> n \<le> 57) \<or> c = CHR ''+'' \<or> c = CHR ''-'' \<or> c = CHR ''.'')"

definition lower_char :: "char \<Rightarrow> char" where
  "lower_char c =
     (let n = (of_char c :: nat) in if 65 \<le> n \<and> n \<le> 90 then char_of (n + 32) else c)"

definition lower :: "string \<Rightarrow> string" where
  "lower s = map lower_char s"

definition before :: "char \<Rightarrow> string \<Rightarrow> string" where
  "before c s = takeWhile (\<lambda>x. x \<noteq> c) s"

definition after :: "char \<Rightarrow> string \<Rightarrow> string" where
  "after c s = drop 1 (dropWhile (\<lambda>x. x \<noteq> c) s)"

fun split_on :: "char \<Rightarrow> string \<Rightarrow> string list" where
  "split_on c [] = [[]]"
| "split_on c (x # xs) =
     (if x = c then [] # split_on c xs
      else (case split_on c xs of [] \<Rightarrow> [[x]] | w # ws \<Rightarrow> (x # w) # ws))"

definition split_scheme :: "string \<Rightarrow> string \<times> string" where
  "split_scheme url =
     (let s = before (CHR '':'') url
      in if CHR '':'' \<in> set url \<and> s \<noteq> [] \<and> is_alpha (hd s) \<and> list_all is_scheme_char s
         then (lower s, after (CHR '':'') url)
         else ([], url))"

definition is_netloc_end :: "char \<Rightarrow> bool" where
  "is_netloc_end c = (c = CHR ''/'' \<or> c = CHR ''?'' \<or> c = CHR ''#'')"

definition split_netloc :: "string \<Rightarrow> string \<times> string" where
  "split_netloc url =
     (if take 2 url = ''//''
      then (takeWhile (\<lambda>c. \<not> is_netloc_end c) (drop 2 url),
            dropWhile (\<lambda>c. \<not> is_netloc_end c) (drop 2 url))
      else ([], url))"

definition hostname_of_netloc :: "string \<Rightarrow> string option" where
  "hostname_of_netloc loc =
     (let hostinfo = last (split_on (CHR ''@'') loc);
          host = before (CHR '':'') hostinfo
      in if host = [] then None else Some (lower host))"

definition urlparse_model :: "string \<Rightarrow> py_exn + parsed_url" where
  "urlparse_model url =
     (let (sch, rest) = split_scheme url;
          (loc, rest') = split_netloc rest;
          no_fragment = before (CHR ''#'') rest'
      in Inr \<lparr> hostname = hostname_of_netloc loc,
               path = before (CHR ''?'') no_fragment,
               query = after (CHR ''?'') no_fragment \<rparr>)"

definition plus_to_space :: "string \<Rightarrow> string" where
  "plus_to_space s = map (\<lambda>c. if c = CHR ''+'' then CHR '' '' else c) s"

definition parse_qsl_model :: "string \<Rightarrow> (string \<times> string) list" where
  "parse_qsl_model qs =
     map (\<lambda>f. (plus_to_space (before (CHR ''='') f), plus_to_space (after (CHR ''='') f)))
       (filter (\<lambda>f. CHR ''='' \<in> set f \<and> after (CHR ''='') f \<noteq> []) (split_on (CHR ''&'') qs))"

fun add_value :: "string \<Rightarrow> string \<Rightarrow> string list dict \<Rightarrow> string list dict" where
  "add_value k v [] = [(k, [v])]"
| "add_value k v ((k', vs) # d) =
     (if k' = k then (k', vs @ [v]) # d else (k', vs) # add_value k v d)"

definition parse_qs_model :: "string \<Rightarrow> string list dict" where
  "parse_qs_model qs = fold (\<lambda>(k, v) d. add_value k v d) (parse_qsl_model qs) []"

definition py_urllib :: urllib where
  "py_urllib = \<lparr> urlparse = urlparse_model, parse_qs = parse_qs_model \<rparr>"

section \<open>Extracting the video id\<close>

text \<open>
  The RAG notebook's \<open>extract_video_id\<close>:
  \<^verbatim>\<open>
  parsed_url = urlparse(url)
  if parsed_url.hostname == 'youtu.be':
      return parsed_url.path[1:]
  if parsed_url.hostname in ('www.youtube.com', 'youtube.com'):
      if parsed_url.path == '/watch':
          return parse_qs(parsed_url.query)['v'][0]
  raise ValueError(f'Invalid YouTube URL: {url}')
  \<close>
  The lookup \<open>['v']\<close> and the index \<open>[0]\<close> are unguarded.
\<close>

definition query_v :: "urllib \<Rightarrow> parsed_url \<Rightarrow> py_exn + string" where
  "query_v lib parsed =
     (case getitem (parse_qs lib (query parsed)) ''v'' of
        Inl e \<Rightarrow> Inl e
      | Inr vs \<Rightarrow> first_item vs)"

definition rag_extract_video_id :: "urllib \<Rightarrow> string \<Rightarrow> py_exn + string" where
  "rag_extract_video_id lib url =
     (case urlparse lib url of
        Inl e \<Rightarrow> Inl e
      | Inr parsed \<Rightarrow>
          if hostname parsed = Some ''youtu.be'' then Inr (drop 1 (path parsed))
          else if hostname parsed \<in> {Some ''www.youtube.com'', Some ''youtube.com''}
                  \<and> path parsed = ''/watch''
          then query_v lib parsed
          else Inl (ValueError (''Invalid YouTube URL: '' @ url)))"

text \<open>
  The Summarizer notebook's \<open>extract_video_id\<close> (the free function and the method of
  \<open>YouTubeSummaryChain\<close> have the same body): the same tests, ending in
  \<open>return None\<close> instead of the \<open>raise\<close>.
\<close>

definition summarizer_extract_video_id :: "urllib \<Rightarrow> string \<Rightarrow> py_exn + string option" where
  "summarizer_extract_video_id lib url =
     (case urlparse lib url of
        Inl e \<Rightarrow> Inl e
      | Inr parsed \<Rightarrow>
          if hostname parsed = Some ''youtu.be'' then Inr (Some (drop 1 (path parsed)))
          else if hostname parsed \<in> {Some ''www.youtube.com'', Some ''youtube.com''}
                  \<and> path parsed = ''/watch''
          then map_sum id Some (query_v lib parsed)
          else Inr None)"

section \<open>External services\<close>

text \<open>
  \<open>YouTubeTranscriptApi.get_transcript(video_id)\<close> returns the transcript segments or
  raises; of each segment only its \<open>'text'\<close> is read. The Groq client's
  \<open>chat.completions.create\<close> returns a completion, of which the content of the first
  choice is read (a string or \<open>None\<close>), or raises; its first argument here is the
  number of calls made before, so that the service may answer each attempt
  differently. What the notebooks print is not modelled.
\<close>

type_synonym transcript_api = "string \<Rightarrow> py_exn + string list"

record chat_request =
  req_model :: string
  req_content :: string
  req_temperature :: real
  req_max_tokens :: nat

type_synonym groq_client = "nat \<Rightarrow> chat_request \<Rightarrow> py_exn + string option"

section \<open>The Summarizer notebook\<close>

text \<open>
  \<open>get_transcript\<close>: the segment texts joined by one space, \<open>None\<close> when anything in
  the \<open>try\<close> block raises.
\<close>

definition summarizer_get_transcript :: "transcript_api \<Rightarrow> string \<Rightarrow> string option" where
  "summarizer_get_transcript api vid =
     (case api vid of Inl e \<Rightarrow> None | Inr segments \<Rightarrow> Some (join '' '' segments))"

definition nl :: string where
  "nl = [CHR 0x0A]"

definition summarize_prompt :: "string \<Rightarrow> string" where
  "summarize_prompt text =
     ''Please provide a comprehensive summary of the following video transcript. '' @ nl @
     ''    Focus on the main points, key insights, and important conclusions:'' @ nl @
     nl @
     ''    '' @ text @ nl @
     nl @
     ''    Please structure the summary with:'' @ nl @
     ''    1. Main Topic/Theme'' @ nl @
     ''    2. Key Points'' @ nl @
     ''    3. Important Details'' @ nl @
     ''    4. Conclusions''"

text \<open>
  \<open>summarize_text\<close> makes one call of the client inside \<open>try\<close>; on any exception it
  returns \<open>None\<close>. The second component is the number of client calls made so far.
\<close>

definition summarize_text :: "groq_client \<Rightarrow> string \<Rightarrow> nat \<Rightarrow> string option \<times> nat" where
  "summarize_text client text calls =
     (case client calls \<lparr> req_model = ''mixtral-8x7b-32768'',
                           req_content = summarize_prompt text,
                           req_temperature = 3 / 10,
                           req_max_tokens = 2048 \<rparr> of
        Inl e \<Rightarrow> (None, Suc calls)
      | Inr content \<Rightarrow> (content, Suc calls))"

text \<open>Python's \<open>not x\<close> for an optional string: true for \<open>None\<close> and for \<open>''\<close>.\<close>

definition falsy :: "string option \<Rightarrow> bool" where
  "falsy x = (case x of None \<Rightarrow> True | Some s \<Rightarrow> s = [])"

text \<open>
  \<open>summarize_youtube_video\<close>: each failed step ends the function with a fixed string;
  an exception of \<open>extract_video_id\<close> is not caught.
\<close>

definition summarize_youtube_video ::
  "urllib \<Rightarrow> transcript_api \<Rightarrow> groq_client \<Rightarrow> string \<Rightarrow> nat \<Rightarrow> (py_exn + string) \<times> nat" where
  "summarize_youtube_video lib api client url calls =
     (case summarizer_extract_video_id lib url of
        Inl e \<Rightarrow> (Inl e, calls)
      | Inr video_id \<Rightarrow>
          if falsy video_id then (Inr ''Invalid YouTube URL'', calls)
          else let transcript = summarizer_get_transcript api (the video_id)
               in if falsy transcript then (Inr ''Could not retrieve transcript'', calls)
                  else let (summary, calls') = summarize_text client (the transcript) calls
                       in if falsy summary then (Inr ''Could not generate summary'', calls')
                          else (Inr (the summary), calls'))"

text \<open>
  \<open>YouTubeSummaryChain\<close>: the same steps as methods of an object that holds the model
  name, the temperature and the prompt template (fixed by \<open>__init__\<close>).
\<close>

record summary_chain =
  model_name :: string
  temperature :: real

definition default_chain :: summary_chain where
  "default_chain = \<lparr> model_name = ''mixtral-8x7b-32768'', temperature = 3 / 10 \<rparr>"

definition chain_prompt :: "string \<Rightarrow> string" where
  "chain_prompt text =
     nl @
     ''        Please provide a comprehensive summary of the following video transcript. '' @ nl @
     ''        Focus on the main points, key insights, and important conclusions:'' @ nl @
     nl @
     ''        '' @ text @ nl @
     nl @
     ''        Please structure the summary with:'' @ nl @
     ''        1. Main Topic/Theme'' @ nl @
     ''        2. Key Points'' @ nl @
     ''        3. Important Details'' @ nl @
     ''        4. Conclusions'' @ nl @
     ''        ''"

definition chain_summarize_text ::
  "summary_chain \<Rightarrow> groq_client \<Rightarrow> string \<Rightarrow> nat \<Rightarrow> string option \<times> nat" where
  "chain_summarize_text self client text calls =
     (case client calls \<lparr> req_model = model_name self,
                           req_content = chain_prompt text,
                           req_temperature = temperature self,
                           req_max_tokens = 2048 \<rparr> of
        Inl e \<Rightarrow> (None, Suc calls)
      | Inr content \<Rightarrow> (content, Suc calls))"

definition chain_call ::
  "summary_chain \<Rightarrow> urllib \<Rightarrow> transcript_api \<Rightarrow> groq_client \<Rightarrow> string \<Rightarrow> nat
     \<Rightarrow> (py_exn + string) \<times> nat" where
  "chain_call self lib api client url calls =
     (case summarizer_extract_video_id lib url of
        Inl e \<Rightarrow> (Inl e, calls)
      | Inr video_id \<Rightarrow>
          if falsy video_id then (Inr ''Invalid YouTube URL'', calls)
          else let transcript = summarizer_get_transcript api (the video_id)
               in if falsy transcript then (Inr ''Could not retrieve transcript'', calls)
                  else let (summary, calls') = chain_summarize_text self client (the transcript) calls
                       in if falsy summary then (Inr ''Could not generate summary'', calls')
                          else (Inr (the summary), calls'))"

section \<open>The RAG notebook: ingestion\<close>

text \<open>
  \<open>get_transcript\<close> of the RAG notebook returns the empty string when anything in the
  \<open>try\<close> block raises.
\<close>

definition rag_get_transcript :: "transcript_api \<Rightarrow> string \<Rightarrow> string" where
  "rag_get_transcript api vid =
     (case api vid of Inl e \<Rightarrow> [] | Inr segments \<Rightarrow> join '' '' segments)"

record document =
  doc_video_id :: string
  doc_url :: string
  doc_content :: string

text \<open>
  \<open>process_videos\<close>: the loop over the URLs, with the list \<open>documents\<close> built so far.
  \<open>extract_video_id\<close> is called outside any \<open>try\<close>, so its exception ends the loop;
  \<open>if transcript:\<close> keeps a document only for a non-empty transcript.
\<close>

fun process_videos_loop ::
  "urllib \<Rightarrow> transcript_api \<Rightarrow> string list \<Rightarrow> document list \<Rightarrow> py_exn + document list" where
  "process_videos_loop lib api [] documents = Inr documents"
| "process_videos_loop lib api (u # urls) documents =
     (case rag_extract_video_id lib u of
        Inl e \<Rightarrow> Inl e
      | Inr video_id \<Rightarrow>
          let transcript = rag_get_transcript api video_id
          in if transcript \<noteq> []
             then process_videos_loop lib api urls
                    (documents @ [\<lparr> doc_video_id = video_id, doc_url = u, doc_content = transcript \<rparr>])
             else process_videos_loop lib api urls documents)"

definition process_videos :: "urllib \<Rightarrow> transcript_api \<Rightarrow> string list \<Rightarrow> py_exn + document list" where
  "process_videos lib api urls = process_videos_loop lib api urls []"

text \<open>
  The cell that chunks the documents. \<open>text_splitter\<close> is LangChain's
  \<open>RecursiveCharacterTextSplitter(chunk_size=1000, chunk_overlap=200,
  length_function=len)\<close>; its \<open>split_text\<close> is library code and a parameter here.
  Each chunk gets the metadata of its document and its index within the document.
\<close>

record chunk_metadata =
  md_video_id :: string
  md_url :: string
  md_chunk :: nat

definition chunk_document :: "(string \<Rightarrow> string list) \<Rightarrow> document \<Rightarrow> (string \<times> chunk_metadata) list" where
  "chunk_document split_text doc =
     (let doc_chunks = split_text (doc_content doc)
      in zip doc_chunks
           (map (\<lambda>i. \<lparr> md_video_id = doc_video_id doc, md_url = doc_url doc, md_chunk = i \<rparr>)
              [0 ..< length doc_chunks]))"

definition chunk_documents ::
  "(string \<Rightarrow> string list) \<Rightarrow> document list \<Rightarrow> string list \<times> chunk_metadata list" where
  "chunk_documents split_text documents =
     (let pairs = concat (map (chunk_document split_text) documents)
      in (map fst pairs, map snd pairs))"

definition ingest ::
  "urllib \<Rightarrow> transcript_api \<Rightarrow> (string \<Rightarrow> string list) \<Rightarrow> string list
     \<Rightarrow> py_exn + string list \<times> chunk_metadata list" where
  "ingest lib api split_text urls =
     map_sum id (chunk_documents split_text) (process_videos lib api urls)"

section \<open>Metric dictionaries\<close>

text \<open>
  Metric values are Python floats (and a few integers). The model carries them as real
  numbers and computes nothing from the scores: the scores come from the metric
  libraries and the averages of a run from pandas, all of them parameters, so the
  rounding of floating-point sums is left to those parameters.
  \<open>dict_set\<close> is \<open>d[k] = v\<close>: an existing key keeps its place, a new key goes last.
  \<open>dict_merge d e\<close> is \<open>{**d, **e}\<close>.
\<close>

type_synonym metrics = "real dict"

fun dict_set :: "string \<Rightarrow> 'v \<Rightarrow> 'v dict \<Rightarrow> 'v dict" where
  "dict_set k v [] = [(k, v)]"
| "dict_set k v ((k', v') # d) = (if k' = k then (k, v) # d else (k', v') # dict_set k v d)"

definition dict_merge :: "'v dict \<Rightarrow> 'v dict \<Rightarrow> 'v dict" where
  "dict_merge d e = fold (\<lambda>(k, v). dict_set k v) e d"

text \<open>\<open>str(n)\<close> for a non-negative integer.\<close>

fun str_nat :: "nat \<Rightarrow> string" where
  "str_nat n = (if n < 10 then [char_of (48 + n)] else str_nat (n div 10) @ [char_of (48 + n mod 10)])"

text \<open>
  The ROUGE scorer, BERTScore and the RAGAS \<open>evaluate\<close> are library code and
  parameters. \<open>scorer.score(a, b)\<close> gives, for each ROUGE type, a score with precision,
  recall and F-measure.
\<close>

record score =
  precision :: real
  recall :: real
  fmeasure :: real

type_synonym rouge_scorer = "string \<Rightarrow> string \<Rightarrow> string \<Rightarrow> score"

section \<open>The RAG evaluation notebook\<close>

record qa_answer =
  answer_text :: string
  source_documents :: "string list"

record eval_env =
  qa_chain :: "string \<Rightarrow> py_exn + qa_answer"
  response_time :: "nat \<Rightarrow> real"
  rouge :: rouge_scorer
  bert_score :: "string \<Rightarrow> string \<Rightarrow> real \<times> real \<times> real"
  ragas_context_relevancy :: "string list \<Rightarrow> string \<Rightarrow> py_exn + real"
  ragas_generation :: "string \<Rightarrow> string \<Rightarrow> string \<Rightarrow> py_exn + real \<times> real"
  frame_mean :: "metrics list \<Rightarrow> metrics"

definition calculate_rouge_scores :: "rouge_scorer \<Rightarrow> string \<Rightarrow> string \<Rightarrow> metrics" where
  "calculate_rouge_scores scorer prediction reference =
     [(''rouge1_f1'', fmeasure (scorer ''rouge1'' prediction reference)),
      (''rouge2_f1'', fmeasure (scorer ''rouge2'' prediction reference)),
      (''rougeL_f1'', fmeasure (scorer ''rougeL'' prediction reference))]"

definition calculate_bert_scores :: "eval_env \<Rightarrow> string \<Rightarrow> string \<Rightarrow> metrics" where
  "calculate_bert_scores env prediction reference =
     (let (P, R, F1) = bert_score env prediction reference
      in [(''bert_precision'', P), (''bert_recall'', R), (''bert_f1'', F1)])"

definition evaluate_retrieval :: "eval_env \<Rightarrow> string list \<Rightarrow> string \<Rightarrow> py_exn + metrics" where
  "evaluate_retrieval env retrieved_contexts relevant_context =
     map_sum id (\<lambda>c. [(''context_relevancy'', c)])
       (ragas_context_relevancy env retrieved_contexts relevant_context)"

definition evaluate_generation :: "eval_env \<Rightarrow> string \<Rightarrow> string \<Rightarrow> string \<Rightarrow> py_exn + metrics" where
  "evaluate_generation env prediction reference ctx =
     map_sum id (\<lambda>(f, a). [(''faithfulness'', f), (''answer_relevancy'', a)])
       (ragas_generation env prediction reference ctx)"

text \<open>Sequencing of calls that may raise: the first exception ends the computation.\<close>

definition and_then :: "py_exn + 'a \<Rightarrow> ('a \<Rightarrow> py_exn + 'b) \<Rightarrow> py_exn + 'b" where
  "and_then r f = (case r of Inl e \<Rightarrow> Inl e | Inr x \<Rightarrow> f x)"

text \<open>
  The body of the loop of \<open>evaluate_rag_system\<close> up to the metrics of one sample, in
  the order of the source: the chain is called with \<open>sample['question']\<close>, then the
  ROUGE and BERT scores use \<open>sample['expected_answer']\<close>, then the two RAGAS
  evaluations use \<open>sample['context']\<close>. None of the three lookups is guarded.
\<close>

definition evaluate_sample :: "eval_env \<Rightarrow> nat \<Rightarrow> string dict \<Rightarrow> py_exn + metrics" where
  "evaluate_sample env i sample =
     and_then (getitem sample ''question'') (\<lambda>question.
     and_then (qa_chain env question) (\<lambda>result.
     and_then (getitem sample ''expected_answer'') (\<lambda>expected.
       let prediction = answer_text result;
           retrieved_contexts = source_documents result;
           rouge_scores = calculate_rouge_scores (rouge env) prediction expected;
           bert_scores = calculate_bert_scores env prediction expected
       in
     and_then (getitem sample ''context'') (\<lambda>ctx.
     and_then (evaluate_retrieval env retrieved_contexts ctx) (\<lambda>retrieval_scores.
     and_then (evaluate_generation env prediction expected ctx) (\<lambda>generation_scores.
       Inr (dict_merge (dict_merge (dict_merge (dict_merge
              [(''sample_id'', real i), (''response_time'', response_time env i)]
              rouge_scores) bert_scores) retrieval_scores) generation_scores)))))))"

text \<open>
  The MLflow run of the evaluation is the list of the metrics logged so far.
  Per sample every metric but \<open>sample_id\<close> is logged under \<open>name_i\<close>.
\<close>

type_synonym metric_log = "(string \<times> real) list"

definition sample_log :: "nat \<Rightarrow> metrics \<Rightarrow> metric_log" where
  "sample_log i m =
     map (\<lambda>(name, v). (name @ ''_'' @ str_nat i, v)) (filter (\<lambda>(name, v). name \<noteq> ''sample_id'') m)"

fun evaluate_loop ::
  "eval_env \<Rightarrow> nat \<Rightarrow> string dict list \<Rightarrow> metrics list \<Rightarrow> metric_log
     \<Rightarrow> (py_exn + metrics list) \<times> metric_log" where
  "evaluate_loop env i [] all_metrics logged = (Inr all_metrics, logged)"
| "evaluate_loop env i (sample # samples) all_metrics logged =
     (case evaluate_sample env i sample of
        Inl e \<Rightarrow> (Inl e, logged)
      | Inr m \<Rightarrow> evaluate_loop env (Suc i) samples (all_metrics @ [m]) (logged @ sample_log i m))"

text \<open>
  The averages of the run: \<open>pd.DataFrame(all_metrics).mean(numeric_only=True)\<close> is
  computed by pandas in double-precision arithmetic; \<open>frame_mean\<close> stands for it and
  gives the items of the resulting series. Every average but that of \<open>sample_id\<close> is
  logged under \<open>avg_name\<close>.
\<close>

definition average_log :: "eval_env \<Rightarrow> metrics list \<Rightarrow> metric_log" where
  "average_log env all_metrics =
     map (\<lambda>(name, v). (''avg_'' @ name, v))
       (filter (\<lambda>(name, v). name \<noteq> ''sample_id'') (frame_mean env all_metrics))"

definition evaluate_rag_system ::
  "eval_env \<Rightarrow> string dict list \<Rightarrow> metric_log \<Rightarrow> (py_exn + metrics list) \<times> metric_log" where
  "evaluate_rag_system env qa_samples logged =
     (case evaluate_loop env 0 qa_samples [] logged of
        (Inl e, logged') \<Rightarrow> (Inl e, logged')
      | (Inr all_metrics, logged') \<Rightarrow> (Inr all_metrics, logged' @ average_log env all_metrics))"

section \<open>The monitoring notebook\<close>

text \<open>
  \<open>PerformanceMonitor\<close> holds the list \<open>metrics_history\<close>. \<open>log_metrics\<close> opens an
  MLflow run for each call and logs the metrics and the model name into it; the MLflow
  store is the list of these runs.
\<close>

record monitor =
  metrics_history :: "metrics list"

record mlflow_run =
  run_metrics :: metrics
  run_params :: "string dict"

definition log_metrics :: "metrics \<Rightarrow> mlflow_run list \<Rightarrow> mlflow_run list" where
  "log_metrics metrics_dict runs =
     runs @ [\<lparr> run_metrics = metrics_dict,
                run_params = [(''model_name'', ''facebook/bart-large-cnn'')] \<rparr>]"

definition log_performance ::
  "real \<Rightarrow> metrics \<Rightarrow> metrics \<Rightarrow> monitor \<times> mlflow_run list
     \<Rightarrow> metrics \<times> monitor \<times> mlflow_run list" where
  "log_performance latency rouge_scores resource_usage st =
     (let m = dict_merge (dict_merge [(''latency'', latency)] rouge_scores) resource_usage
      in (m, (fst st)\<lparr> metrics_history := metrics_history (fst st) @ [m] \<rparr>,
             log_metrics m (snd st)))"

text \<open>
  The environment of the monitor: the transcript API, the summarizer pipeline (library
  code), the two readings of \<open>time.time()\<close> around the measured call, the readings of
  \<open>psutil\<close>, and the ROUGE scorer of the monitor.
\<close>

record monitor_env =
  transcripts :: transcript_api
  summarizer :: "string \<Rightarrow> py_exn + string"
  start_time :: real
  end_time :: real
  cpu_percent :: real
  memory_rss :: real
  monitor_scorer :: rouge_scorer

text \<open>
  \<open>measure_latency\<close> returns the result of the call with the elapsed time; an
  exception of the call is not caught.
\<close>

definition measure_latency :: "monitor_env \<Rightarrow> py_exn + 'a \<Rightarrow> py_exn + 'a \<times> real" where
  "measure_latency env call = map_sum id (\<lambda>result. (result, end_time env - start_time env)) call"

definition measure_resource_usage :: "monitor_env \<Rightarrow> metrics" where
  "measure_resource_usage env =
     [(''cpu_percent'', cpu_percent env), (''memory_mb'', memory_rss env / 1024 / 1024)]"

text \<open>
  \<open>process_video\<close>: the transcript is fetched outside any \<open>try\<close>; the ROUGE scores
  are computed only for a reference summary that is neither \<open>None\<close> nor empty.
\<close>

definition process_video ::
  "monitor_env \<Rightarrow> string \<Rightarrow> string option \<Rightarrow> monitor \<times> mlflow_run list
     \<Rightarrow> py_exn + (string \<times> metrics) \<times> monitor \<times> mlflow_run list" where
  "process_video env video_id reference_summary st =
     and_then (transcripts env video_id) (\<lambda>transcript.
     and_then (measure_latency env (summarizer env (join '' '' transcript))) (\<lambda>(summary, latency).
       let resource_usage = measure_resource_usage env;
           rouge_scores = (if falsy reference_summary then []
                           else calculate_rouge_scores (monitor_scorer env) summary (the reference_summary));
           (m, st') = log_performance latency rouge_scores resource_usage st
       in Inr ((summary, m), st')))"

section \<open>The Chunker of the specification\<close>

text \<open>
  The repository has no chunker of its own: the RAG notebook hands each transcript to
  LangChain's \<open>RecursiveCharacterTextSplitter\<close>, configured in characters
  (\<open>chunk_size=1000\<close>, \<open>chunk_overlap=200\<close>, \<open>length_function=len\<close>), and the code
  of that library is not part of the sources. The definitions of this section follow
  section 4.1 of the specification instead; sizes and overlaps count units (words).
\<close>

text \<open>
  Modelled from the spec: the semantic boundaries of 4.1, smallest first; the splitter
  of the repository is library code. \<open>NoBoundary\<close> stands between two units that no
  white space separates.
\<close>

datatype boundary = NoBoundary | Whitespace | Sentence | Paragraph

text \<open>
  Modelled from the spec: a unit of text (the splitter's units are missing from the
  sources). A unit is a word together with the white space that follows it in the
  document, so that the units of a document spell its text.
\<close>

type_synonym text_unit = "string \<times> string"

text \<open>
  Modelled from the spec: white space, which 4.1 names without defining it (the splitter
  is missing from the sources): the ASCII characters that Python's \<open>str.isspace\<close>
  accepts.
\<close>

definition is_space :: "char \<Rightarrow> bool" where
  "is_space c = (let n = (of_char c :: nat) in (9 \<le> n \<and> n \<le> 13) \<or> (28 \<le> n \<and> n \<le> 32))"

text \<open>
  Modelled from the spec: reading a text into word units (tokenisation is missing from
  the sources). \<open>w\<close> is the word being read and \<open>sp\<close> the white space read after it;
  a character that is not white space, coming after white space, starts the next unit.
\<close>

fun scan_units :: "string \<Rightarrow> string \<Rightarrow> string \<Rightarrow> text_unit list" where
  "scan_units w sp [] = (if w = [] then [] else [(w, sp)])"
| "scan_units w sp (c # cs) =
     (if is_space c then scan_units w (sp @ [c]) cs
      else if w = [] then scan_units [c] [] cs
      else if sp = [] then scan_units (w @ [c]) [] cs
      else (w, sp) # scan_units [c] [] cs)"

text \<open>
  Modelled from the spec: the units of a document text, in word units (tokenisation is
  missing from the sources). White space before the first word belongs to no unit.
\<close>

definition units_of_text :: "string \<Rightarrow> text_unit list" where
  "units_of_text text = scan_units [] [] text"

text \<open>
  Modelled from the spec: the text that a sequence of units spells (missing from the
  sources): each word followed by its white space.
\<close>

definition text_of_units :: "text_unit list \<Rightarrow> string" where
  "text_of_units us = concat (map (\<lambda>(w, sp). w @ sp) us)"

text \<open>
  Modelled from the spec: which boundary follows a unit (4.1 names paragraph, sentence
  and white space without defining them; the splitter is missing from the sources).
  A blank line ends a paragraph; a word ending in \<open>.\<close>, \<open>!\<close> or \<open>?\<close> ends a sentence.
\<close>

definition boundary_after :: "text_unit \<Rightarrow> boundary" where
  "boundary_after u =
     (case u of (w, sp) \<Rightarrow>
        if sp = [] then NoBoundary
        else if 2 \<le> length (filter (\<lambda>c. c = CHR 0x0A) sp) then Paragraph
        else if w \<noteq> [] \<and> last w \<in> {CHR ''.'', CHR ''!'', CHR ''?''} then Sentence
        else Whitespace)"

text \<open>
  Modelled from the spec: "splits on the largest semantic boundary (paragraph, then
  sentence, then whitespace) that fits within \<open>max_chunk_size\<close>; if no boundary fits,
  hard-cuts at the size limit" (the splitter is missing from the sources). A chunk that
  starts at unit \<open>s\<close> may end after \<open>s + ov + 1\<close> to \<open>s + mx\<close> units, so that the next
  chunk, which starts \<open>ov\<close> units before the end, starts later than this one;
  \<open>fitting b\<close> lists the ends in that range that fall on a boundary \<open>b\<close> (it is used
  where the document goes on beyond \<open>s + mx\<close> units, so the units it reads exist). The
  end is the end of the document when the rest fits, else the last fitting end of the
  largest kind of boundary present, else the size limit.
\<close>

definition fitting :: "boundary \<Rightarrow> nat \<Rightarrow> nat \<Rightarrow> text_unit list \<Rightarrow> nat \<Rightarrow> nat list" where
  "fitting b mx ov us s =
     filter (\<lambda>e. boundary_after (us ! (e - 1)) = b) [s + ov + 1 ..< s + mx + 1]"

text \<open>
  Modelled from the spec: the end of the chunk that starts at unit \<open>s\<close>, by the rule of
  4.1 quoted above (the splitter is missing from the sources).
\<close>

definition cut_end :: "nat \<Rightarrow> nat \<Rightarrow> text_unit list \<Rightarrow> nat \<Rightarrow> nat" where
  "cut_end mx ov us s =
     (if length us \<le> s + mx then length us
      else if fitting Paragraph mx ov us s \<noteq> [] then last (fitting Paragraph mx ov us s)
      else if fitting Sentence mx ov us s \<noteq> [] then last (fitting Sentence mx ov us s)
      else if fitting Whitespace mx ov us s \<noteq> [] then last (fitting Whitespace mx ov us s)
      else s + mx)"

text \<open>
  Modelled from the spec: "adjacent chunks share \<open>overlap\<close> units of trailing/leading
  text" (the splitter is missing from the sources): the chunks of the units from
  position \<open>s\<close> on, each starting \<open>ov\<close> units before the end of the one before.
\<close>

function chunks_from :: "nat \<Rightarrow> nat \<Rightarrow> text_unit list \<Rightarrow> nat \<Rightarrow> text_unit list list" where
  "chunks_from mx ov us s =
     (if ov < mx \<and> s < length us
      then (let e = cut_end mx ov us s
            in if e = length us then [drop s us]
               else take (e - s) (drop s us) # chunks_from mx ov us (e - ov))
      else [])"
  by pat_completeness auto
termination
proof (relation "measure (\<lambda>(mx, ov, us, s). length us - s)")
  show "wf (measure (\<lambda>(mx, ov, us, s). length us - s))" by simp
next
  fix mx ov :: nat and us :: "text_unit list" and s e :: nat
  assume a: "ov < mx \<and> s < length us" and e: "e = cut_end mx ov us s" and ne: "e \<noteq> length us"
  have in_range: "s + ov < last (fitting b mx ov us s)" if "fitting b mx ov us s \<noteq> []" for b
  proof -
    from that have "last (fitting b mx ov us s) \<in> set (fitting b mx ov us s)" by (rule last_in_set)
    then have "last (fitting b mx ov us s) \<in> set [s + ov + 1 ..< s + mx + 1]"
      by (simp only: fitting_def set_filter mem_Collect_eq)
    then show ?thesis by (simp only: set_upt atLeastLessThan_iff) arith
  qed
  have nl: "\<not> length us \<le> s + mx"
  proof
    assume "length us \<le> s + mx"
    then have "cut_end mx ov us s = length us" by (simp only: cut_end_def if_True)
    with e ne show False by simp
  qed
  consider (p) "fitting Paragraph mx ov us s \<noteq> []"
    | (s) "fitting Paragraph mx ov us s = []" "fitting Sentence mx ov us s \<noteq> []"
    | (w) "fitting Paragraph mx ov us s = []" "fitting Sentence mx ov us s = []"
          "fitting Whitespace mx ov us s \<noteq> []"
    | (h) "fitting Paragraph mx ov us s = []" "fitting Sentence mx ov us s = []"
          "fitting Whitespace mx ov us s = []"
    by blast
  then have "s + ov < e"
  proof cases
    case p
    have "cut_end mx ov us s = last (fitting Paragraph mx ov us s)"
      using nl p by (simp only: cut_end_def if_False if_True not_False_eq_True)
    with in_range [OF p] e show ?thesis by simp
  next
    case s
    have "cut_end mx ov us s = last (fitting Sentence mx ov us s)"
      using nl s by (simp only: cut_end_def if_False if_True simp_thms)
    with in_range [OF s(2)] e show ?thesis by simp
  next
    case w
    have "cut_end mx ov us s = last (fitting Whitespace mx ov us s)"
      using nl w by (simp only: cut_end_def if_False if_True simp_thms)
    with in_range [OF w(3)] e show ?thesis by simp
  next
    case h
    have "cut_end mx ov us s = s + mx"
      using nl h by (simp only: cut_end_def if_False if_True simp_thms)
    with a e show ?thesis by simp
  qed
  with a have "length us - (e - ov) < length us - s" by arith
  then show "((mx, ov, us, e - ov), (mx, ov, us, s)) \<in> measure (\<lambda>(mx, ov, us, s). length us - s)"
    by simp
qed

declare chunks_from.simps [simp del]

text \<open>\<open>s.strip()\<close>: the text without leading and trailing white space.\<close>

definition trim :: "string \<Rightarrow> string" where
  "trim s = rev (dropWhile is_space (rev (dropWhile is_space s)))"

text \<open>
  Modelled from the spec: the configuration \<open>{max_chunk_size, overlap}\<close> of 4.1, "both
  in token/word units" (the repository's configuration is in characters).
\<close>

record chunker_config =
  max_chunk_size :: nat
  overlap :: nat

text \<open>
  Modelled from the spec: the failures of the Chunker (missing from the sources).
  \<open>EmptyDocument\<close> is named in 4.1. The specification gives no behaviour for an overlap
  that is not smaller than the chunk size, where no chunking with that overlap exists;
  the model refuses such a configuration.
\<close>

datatype chunker_error = EmptyDocument | InvalidConfiguration

text \<open>
  Modelled from the spec: a Chunk of section 3, with the fields the Chunker fills
  (missing from the sources): its place in the sequence and its units.
\<close>

record chunk =
  sequence_index :: nat
  chunk_units :: "text_unit list"

text \<open>
  Modelled from the spec: the text of a Chunk (missing from the sources), as in the
  chunking scenario of section 8, where no chunk starts or ends with white space.
\<close>

definition chunk_text :: "chunk \<Rightarrow> string" where
  "chunk_text c = trim (text_of_units (chunk_units c))"

text \<open>
  Modelled from the spec: the Chunker of 4.1 (the repository calls a library splitter
  instead): it "fails with \<open>EmptyDocument\<close> if input text is empty after trimming" and
  gives the "ordered sequence of Chunks with \<open>sequence_index\<close> starting at 0".
\<close>

definition chunker :: "chunker_config \<Rightarrow> string \<Rightarrow> chunker_error + chunk list" where
  "chunker cfg text =
     (if trim text = [] then Inl EmptyDocument
      else if \<not> overlap cfg < max_chunk_size cfg then Inl InvalidConfiguration
      else let cs = chunks_from (max_chunk_size cfg) (overlap cfg) (units_of_text text) 0
           in Inr (map (\<lambda>(i, us). \<lparr> sequence_index = i, chunk_units = us \<rparr>)
                    (zip [0 ..< length cs] cs)))"




section \<open>Concrete services for closed evaluations\<close>

text \<open>
  Services, samples and configurations at which the properties below are evaluated:
  transcript APIs that answer, answer nothing, answer white space or fail; a generation
  client that always times out; evaluation services with fixed scores; a sample with
  and one without its context.
\<close>

definition api_ok :: transcript_api where
  "api_ok = (\<lambda>vid. Inr [''hello'', ''world''])"

definition api_empty :: transcript_api where
  "api_empty = (\<lambda>vid. Inr [])"

definition api_fail :: transcript_api where
  "api_fail = (\<lambda>vid. Inl (ExternalError ''TranscriptsDisabled''))"

definition groq_timeout :: groq_client where
  "groq_timeout = (\<lambda>calls req. Inl (ExternalError ''timeout''))"

definition split_whole :: "string \<Rightarrow> string list" where
  "split_whole t = [t]"

definition zero_score :: score where
  "zero_score = \<lparr> precision = 0, recall = 0, fmeasure = 0 \<rparr>"

definition env_ok :: eval_env where
  "env_ok = \<lparr> qa_chain = (\<lambda>q. Inr \<lparr> answer_text = ''an answer'', source_documents = [''a chunk''] \<rparr>),
              response_time = (\<lambda>i. real (Suc i)),
              rouge = (\<lambda>t a b. zero_score),
              bert_score = (\<lambda>a b. (0, 0, 0)),
              ragas_context_relevancy = (\<lambda>cs c. Inr 1),
              ragas_generation = (\<lambda>p r c. Inr (1, 1)),
              frame_mean = (\<lambda>rows. []) \<rparr>"

definition empty_monitor :: "monitor \<times> mlflow_run list" where
  "empty_monitor = (\<lparr> metrics_history = [] \<rparr>, [])"

definition api_blank :: transcript_api where
  "api_blank = (\<lambda>vid. Inr [''  ''])"

definition api_mixed :: transcript_api where
  "api_mixed = (\<lambda>vid. if vid = ''abc123'' then Inr [''hello'', ''world'']
                      else Inl (ExternalError ''TranscriptsDisabled''))"

definition s_full :: "string dict" where
  "s_full = [(''question'', ''q''), (''expected_answer'', ''a''), (''context'', ''c'')]"

definition s_noctx :: "string dict" where
  "s_noctx = [(''question'', ''q''), (''expected_answer'', ''a'')]"



definition monitor_env_ok :: monitor_env where
  "monitor_env_ok = \<lparr> transcripts = api_ok, summarizer = (\<lambda>t. Inr ''a summary''),
                      start_time = 10, end_time = 21 / 2, cpu_percent = 5, memory_rss = 104857600,
                      monitor_scorer = (\<lambda>t a b. zero_score) \<rparr>"


section \<open>Notions used in the statements\<close>

text \<open>The transcript fetch for a video id succeeded and gave non-empty text.\<close>

definition fetch_ok :: "transcript_api \<Rightarrow> string \<Rightarrow> bool" where
  "fetch_ok api vid = (case api vid of Inl e \<Rightarrow> False | Inr segments \<Rightarrow> join '' '' segments \<noteq> [])"




section \<open>Properties of the video id extraction\<close>

text \<open>
  Claim C8. For the URL \<open>https://www.youtube.com/watch\<close> the host is a YouTube host
  and the path is \<open>/watch\<close>, but the query is empty, so \<open>parse_qs\<close> gives the empty
  dictionary and the unguarded lookup \<open>['v']\<close> has no value: both versions of
  \<open>extract_video_id\<close> raise \<open>KeyError\<close>; neither \<open>None\<close> nor the function's own
  \<open>ValueError\<close> is the outcome. The same holds for the host \<open>youtube.com\<close>.
\<close>

theorem watch_without_v_raises_KeyError:
  "urlparse py_urllib ''https://www.youtube.com/watch'' =
     Inr \<lparr> hostname = Some ''www.youtube.com'', path = ''/watch'', query = [] \<rparr>
   \<and> map_of (parse_qs py_urllib []) ''v'' = None
   \<and> rag_extract_video_id py_urllib ''https://www.youtube.com/watch'' = Inl (KeyError ''v'')
   \<and> summarizer_extract_video_id py_urllib ''https://www.youtube.com/watch'' = Inl (KeyError ''v'')
   \<and> rag_extract_video_id py_urllib ''https://youtube.com/watch'' = Inl (KeyError ''v'')
   \<and> summarizer_extract_video_id py_urllib ''https://youtube.com/watch'' = Inl (KeyError ''v'')"
  by code_simp

text \<open>
  Claim C10. Whatever the URL library returns: when the Summarizer's
  \<open>extract_video_id\<close> returns an id, the RAG version returns the same id; when the
  Summarizer's returns \<open>None\<close>, the RAG version raises its \<open>ValueError\<close>; in every
  other case (an id or an exception) the two outcomes are the same.
\<close>

theorem extract_video_id_versions_agree:
  "(summarizer_extract_video_id lib url = Inr (Some v) \<longrightarrow> rag_extract_video_id lib url = Inr v)
   \<and> (summarizer_extract_video_id lib url = Inr None \<longrightarrow>
        rag_extract_video_id lib url = Inl (ValueError (''Invalid YouTube URL: '' @ url)))
   \<and> (summarizer_extract_video_id lib url \<noteq> Inr None \<longrightarrow>
        summarizer_extract_video_id lib url = map_sum id Some (rag_extract_video_id lib url))"
  unfolding summarizer_extract_video_id_def rag_extract_video_id_def
  by (cases "urlparse lib url"; cases "query_v lib (projr (urlparse lib url))") auto

theorem extract_video_id_versions_agree_witness:
  "summarizer_extract_video_id py_urllib ''https://www.youtube.com/watch?v=abc123'' = Inr (Some ''abc123'')
   \<and> rag_extract_video_id py_urllib ''https://www.youtube.com/watch?v=abc123'' = Inr ''abc123''
   \<and> summarizer_extract_video_id py_urllib ''https://vimeo.com/1'' = Inr None
   \<and> rag_extract_video_id py_urllib ''https://vimeo.com/1'' =
       Inl (ValueError (''Invalid YouTube URL: '' @ ''https://vimeo.com/1''))"
proof -
  have a: "summarizer_extract_video_id py_urllib ''https://www.youtube.com/watch?v=abc123'' =
      Inr (Some ''abc123'')"
    by code_simp
  have b: "summarizer_extract_video_id py_urllib ''https://vimeo.com/1'' = Inr None"
    by code_simp
  note t1 = extract_video_id_versions_agree
      [of py_urllib "''https://www.youtube.com/watch?v=abc123''" "''abc123''"]
  note t2 = extract_video_id_versions_agree [of py_urllib "''https://vimeo.com/1''"]
  have c: "rag_extract_video_id py_urllib ''https://www.youtube.com/watch?v=abc123'' = Inr ''abc123''"
    by (rule t1 [THEN conjunct1, THEN mp, OF a])
  have d: "rag_extract_video_id py_urllib ''https://vimeo.com/1'' =
       Inl (ValueError (''Invalid YouTube URL: '' @ ''https://vimeo.com/1''))"
    by (rule t2 [THEN conjunct2, THEN conjunct1, THEN mp, OF b])
  from a c b d show ?thesis by (intro conjI) assumption+
qed

section \<open>Properties of the Summarizer\<close>

lemma falsy_simps: "falsy None" "falsy (Some s) = (s = [])"
  by (simp_all add: falsy_def)

text \<open>
  Claim C1, as amended. The answer operation is \<open>summarize_youtube_video\<close> (and
  \<open>YouTubeSummaryChain.__call__\<close>). It has no retry and no failure type: when the URL
  gives a non-empty video id, the transcript is non-empty and the generation client
  fails on every attempt, it calls the client exactly once and returns the fixed string
  \<open>Could not generate summary\<close>.
\<close>

theorem generation_failure_gives_placeholder:
  assumes "\<forall>n req. isl (client n req)"
    and "summarizer_extract_video_id lib url = Inr (Some vid)" and "vid \<noteq> []"
    and "api vid = Inr segments" and "join '' '' segments \<noteq> []"
  shows "summarize_youtube_video lib api client url calls =
           (Inr ''Could not generate summary'', Suc calls)
       \<and> chain_call self lib api client url calls =
           (Inr ''Could not generate summary'', Suc calls)"
proof -
  have a: "isl (client calls r)" for r using assms(1) by simp
  have "summarize_text client t calls = (None, Suc calls)" for t
    using a [of "\<lparr> req_model = ''mixtral-8x7b-32768'', req_content = summarize_prompt t,
                   req_temperature = 3 / 10, req_max_tokens = 2048 \<rparr>"]
    by (auto simp: summarize_text_def split: sum.splits)
  moreover have "chain_summarize_text self client t calls = (None, Suc calls)" for t
    using a [of "\<lparr> req_model = model_name self, req_content = chain_prompt t,
                   req_temperature = temperature self, req_max_tokens = 2048 \<rparr>"]
    by (auto simp: chain_summarize_text_def split: sum.splits)
  ultimately show ?thesis
    using assms(2-5)
    by (simp add: summarize_youtube_video_def chain_call_def summarizer_get_transcript_def falsy_simps)
qed

theorem generation_failure_gives_placeholder_witness:
  "(\<forall>n req. isl (groq_timeout n req))
   \<and> summarizer_extract_video_id py_urllib ''https://youtu.be/abc123'' = Inr (Some ''abc123'')
   \<and> api_ok ''abc123'' = Inr [''hello'', ''world'']
   \<and> summarize_youtube_video py_urllib api_ok groq_timeout ''https://youtu.be/abc123'' 7 =
       (Inr ''Could not generate summary'', Suc 7)
   \<and> chain_call default_chain py_urllib api_ok groq_timeout ''https://youtu.be/abc123'' 7 =
       (Inr ''Could not generate summary'', Suc 7)"
proof -
  have 1: "\<forall>n req. isl (groq_timeout n req)" by (simp add: groq_timeout_def)
  have 2: "summarizer_extract_video_id py_urllib ''https://youtu.be/abc123'' = Inr (Some ''abc123'')"
    by code_simp
  have 3: "''abc123'' \<noteq> []" by simp
  have 4: "api_ok ''abc123'' = Inr [''hello'', ''world'']" by (simp add: api_ok_def)
  have 5: "join '' '' [''hello'', ''world''] \<noteq> []" by simp
  note t = generation_failure_gives_placeholder
      [of groq_timeout py_urllib "''https://youtu.be/abc123''" "''abc123''" api_ok
          "[''hello'', ''world'']" 7 default_chain, OF 1 2 3 4 5]
  from 1 2 4 t [THEN conjunct1] t [THEN conjunct2]
  show ?thesis by (intro conjI) assumption+
qed

text \<open>
  The claim as stated fails: with a transcript at hand and a client that always times
  out, the result is the placeholder string, after one call of the client.
\<close>

theorem generation_failure_counterexample:
  "summarize_youtube_video py_urllib api_ok groq_timeout ''https://youtu.be/abc123'' 0 =
     (Inr ''Could not generate summary'', 1)
   \<and> chain_call default_chain py_urllib api_ok groq_timeout ''https://youtu.be/abc123'' 0 =
     (Inr ''Could not generate summary'', 1)"
  by code_simp

section \<open>Properties of the ingestion\<close>

lemma process_videos_loop_documents:
  "map (rag_extract_video_id lib) urls = map Inr vids \<Longrightarrow>
   process_videos_loop lib api urls docs =
     Inr (docs @ map (\<lambda>(u, vid). \<lparr> doc_video_id = vid, doc_url = u,
                                   doc_content = rag_get_transcript api vid \<rparr>)
                  (filter (\<lambda>(u, vid). fetch_ok api vid) (zip urls vids)))"
proof (induction urls arbitrary: vids docs)
  case Nil
  then show ?case by simp
next
  case (Cons u urls)
  then obtain v vs where vids: "vids = v # vs" by (cases vids) auto
  with Cons.prems have u: "rag_extract_video_id lib u = Inr v"
    and rest: "map (rag_extract_video_id lib) urls = map Inr vs" by auto
  have f: "fetch_ok api v = (rag_get_transcript api v \<noteq> [])"
    by (simp add: fetch_ok_def rag_get_transcript_def split: sum.splits)
  show ?case
    using Cons.IH [OF rest] by (simp add: vids u f Let_def)
qed

text \<open>
  Claim C9. For URLs from which \<open>extract_video_id\<close> returns the ids \<open>vids\<close>,
  \<open>process_videos\<close> returns without error; its documents are, in order, those of the
  URLs whose transcript fetch succeeded with non-empty text, and the others are left
  out; so there are at most as many documents as URLs.
\<close>

theorem process_videos_omits_failed_fetches:
  assumes "map (rag_extract_video_id lib) urls = map Inr vids"
  shows "\<exists>docs. process_videos lib api urls = Inr docs
           \<and> docs = map (\<lambda>(u, vid). \<lparr> doc_video_id = vid, doc_url = u,
                                       doc_content = rag_get_transcript api vid \<rparr>)
                      (filter (\<lambda>(u, vid). fetch_ok api vid) (zip urls vids))
           \<and> length docs \<le> length urls"
proof -
  have "length (filter (\<lambda>(u, vid). fetch_ok api vid) (zip urls vids)) \<le> length (zip urls vids)"
    by (rule length_filter_le)
  also have "\<dots> \<le> length urls" by simp
  finally show ?thesis
    using process_videos_loop_documents [OF assms, of api "[]"] by (simp add: process_videos_def)
qed

theorem process_videos_omits_failed_fetches_witness:
  "map (rag_extract_video_id py_urllib) [''https://youtu.be/abc123'', ''https://www.youtube.com/watch?v=x'']
     = map Inr [''abc123'', ''x'']
   \<and> fetch_ok api_mixed ''abc123'' \<and> \<not> fetch_ok api_mixed ''x''
   \<and> process_videos py_urllib api_mixed [''https://youtu.be/abc123'', ''https://www.youtube.com/watch?v=x'']
     = Inr [\<lparr> doc_video_id = ''abc123'', doc_url = ''https://youtu.be/abc123'',
              doc_content = ''hello world'' \<rparr>]"
proof -
  have 1: "map (rag_extract_video_id py_urllib)
      [''https://youtu.be/abc123'', ''https://www.youtube.com/watch?v=x''] = map Inr [''abc123'', ''x'']"
    by code_simp
  have 2: "fetch_ok api_mixed ''abc123''" by code_simp
  have 3: "\<not> fetch_ok api_mixed ''x''" by code_simp
  have 4: "map (\<lambda>(u, vid). \<lparr> doc_video_id = vid, doc_url = u,
                               doc_content = rag_get_transcript api_mixed vid \<rparr>)
             (filter (\<lambda>(u, vid). fetch_ok api_mixed vid)
                (zip [''https://youtu.be/abc123'', ''https://www.youtube.com/watch?v=x''] [''abc123'', ''x'']))
           = [\<lparr> doc_video_id = ''abc123'', doc_url = ''https://youtu.be/abc123'',
                 doc_content = ''hello world'' \<rparr>]"
    by code_simp
  from process_videos_omits_failed_fetches [OF 1, of api_mixed]
  obtain docs where d: "process_videos py_urllib api_mixed
      [''https://youtu.be/abc123'', ''https://www.youtube.com/watch?v=x''] = Inr docs"
    and e: "docs = map (\<lambda>(u, vid). \<lparr> doc_video_id = vid, doc_url = u,
                               doc_content = rag_get_transcript api_mixed vid \<rparr>)
             (filter (\<lambda>(u, vid). fetch_ok api_mixed vid)
                (zip [''https://youtu.be/abc123'', ''https://www.youtube.com/watch?v=x''] [''abc123'', ''x'']))"
    by (elim exE conjE)
  from d have 5: "process_videos py_urllib api_mixed
      [''https://youtu.be/abc123'', ''https://www.youtube.com/watch?v=x'']
     = Inr [\<lparr> doc_video_id = ''abc123'', doc_url = ''https://youtu.be/abc123'',
              doc_content = ''hello world'' \<rparr>]"
    by (simp only: e 4)
  from 1 2 3 5 show ?thesis by (intro conjI) assumption+
qed

lemma process_videos_loop_append:
  "process_videos_loop lib api (us @ vs) docs =
     (case process_videos_loop lib api us docs of
        Inl e \<Rightarrow> Inl e
      | Inr docs' \<Rightarrow> process_videos_loop lib api vs docs')"
  by (induction us arbitrary: docs) (auto simp: Let_def split: sum.splits)

text \<open>
  Claim C5, as amended. No \<open>EmptyDocument\<close> error exists in the code. A video whose
  transcript text is the empty string (the fetch failed, or gave no text) is left out
  by \<open>process_videos\<close> without any error: the documents, and the chunks and metadata
  made from them, are those of the other URLs, so the splitter never receives an empty
  document. The text is not trimmed first.
\<close>

theorem empty_transcript_is_left_out:
  assumes "rag_extract_video_id lib u = Inr vid" and "rag_get_transcript api vid = []"
  shows "process_videos lib api (us @ u # vs) = process_videos lib api (us @ vs)
       \<and> ingest lib api split_text (us @ u # vs) = ingest lib api split_text (us @ vs)"
  using assms by (simp add: ingest_def process_videos_def process_videos_loop_append split: sum.splits)

theorem empty_transcript_is_left_out_witness:
  "rag_extract_video_id py_urllib ''https://www.youtube.com/watch?v=x'' = Inr ''x''
   \<and> rag_get_transcript api_mixed ''x'' = []
   \<and> ingest py_urllib api_mixed split_whole
        ([''https://youtu.be/abc123''] @ ''https://www.youtube.com/watch?v=x'' # [])
     = ingest py_urllib api_mixed split_whole ([''https://youtu.be/abc123''] @ [])
   \<and> ingest py_urllib api_mixed split_whole ([''https://youtu.be/abc123''] @ [])
     = Inr ([''hello world''],
            [\<lparr> md_video_id = ''abc123'', md_url = ''https://youtu.be/abc123'', md_chunk = 0 \<rparr>])"
proof -
  have 1: "rag_extract_video_id py_urllib ''https://www.youtube.com/watch?v=x'' = Inr ''x''"
    by code_simp
  have 2: "rag_get_transcript api_mixed ''x'' = []" by code_simp
  have 3: "ingest py_urllib api_mixed split_whole ([''https://youtu.be/abc123''] @ [])
     = Inr ([''hello world''],
            [\<lparr> md_video_id = ''abc123'', md_url = ''https://youtu.be/abc123'', md_chunk = 0 \<rparr>])"
    by code_simp
  note t = empty_transcript_is_left_out [OF 1 2, of "[''https://youtu.be/abc123'']" "[]" split_whole]
  from 1 2 t [THEN conjunct2] 3 show ?thesis by (intro conjI) assumption+
qed

text \<open>
  The claim as stated fails: a document whose text is empty gives no error but empty
  output, and a text of white space only is kept as it is.
\<close>

theorem empty_document_counterexample:
  "ingest py_urllib api_empty split_whole [''https://youtu.be/abc123''] = Inr ([], [])
   \<and> ingest py_urllib api_fail split_whole [''https://youtu.be/abc123''] = Inr ([], [])
   \<and> process_videos py_urllib api_blank [''https://youtu.be/abc123''] =
       Inr [\<lparr> doc_video_id = ''abc123'', doc_url = ''https://youtu.be/abc123'',
               doc_content = ''  '' \<rparr>]"
  by code_simp

section \<open>Properties of the evaluation\<close>

lemma and_then_simps [simp]: "and_then (Inl e) f = Inl e" "and_then (Inr x) f = f x"
  by (simp_all add: and_then_def)

lemma evaluate_loop_fails:
  "s \<in> set samples \<Longrightarrow> (\<And>i. isl (evaluate_sample env i s)) \<Longrightarrow>
   isl (fst (evaluate_loop env i samples acc lg))"
proof (induction samples arbitrary: i acc lg)
  case Nil
  then show ?case by simp
next
  case (Cons x samples)
  show ?case
  proof (cases "evaluate_sample env i x")
    case (Inl e)
    then show ?thesis by simp
  next
    case (Inr m)
    then have "x \<noteq> s" using Cons.prems(2) [of i] by auto
    with Cons.prems(1) have "s \<in> set samples" by simp
    from Cons.IH [OF this Cons.prems(2)] Inr show ?thesis by simp
  qed
qed

lemma missing_context_sample:
  assumes "map_of s ''context'' = None"
  shows "isl (evaluate_sample env i s)"
  using assms unfolding evaluate_sample_def and_then_def getitem_def Let_def
  by (auto split: sum.splits option.splits)

text \<open>
  Claim C6, as amended. \<open>evaluate_rag_system\<close> reads \<open>sample['context']\<close> without a
  guard: a run that contains a sample without that entry does not complete, whatever
  the services do. When the sample has its question and its expected answer and the
  chain answers, the exception is the \<open>KeyError\<close> of the missing entry, raised after the
  ROUGE and BERT scores of the sample were computed; nothing is skipped.
\<close>

theorem missing_context_fails_run:
  assumes "s \<in> set qa_samples" and "map_of s ''context'' = None"
  shows "isl (fst (evaluate_rag_system env qa_samples logged))
       \<and> (map_of s ''question'' = Some q \<and> map_of s ''expected_answer'' = Some a \<and> qa_chain env q = Inr r
            \<longrightarrow> evaluate_sample env i s = Inl (KeyError ''context''))"
proof -
  have "isl (fst (evaluate_loop env 0 qa_samples [] logged))"
    by (rule evaluate_loop_fails [OF assms(1)]) (rule missing_context_sample [OF assms(2)])
  then have "isl (fst (evaluate_rag_system env qa_samples logged))"
    by (auto simp: evaluate_rag_system_def split: prod.splits sum.splits)
  moreover have "map_of s ''question'' = Some q \<and> map_of s ''expected_answer'' = Some a \<and> qa_chain env q = Inr r
            \<longrightarrow> evaluate_sample env i s = Inl (KeyError ''context'')"
    using assms(2) by (simp add: evaluate_sample_def getitem_def Let_def)
  ultimately show ?thesis by blast
qed

theorem missing_context_fails_run_witness:
  "s_noctx \<in> set [s_full, s_noctx] \<and> map_of s_noctx ''context'' = None
   \<and> isl (fst (evaluate_rag_system env_ok [s_full, s_noctx] []))
   \<and> evaluate_sample env_ok 1 s_noctx = Inl (KeyError ''context'')"
proof -
  have 1: "s_noctx \<in> set [s_full, s_noctx]" by simp
  have 2: "map_of s_noctx ''context'' = None" by code_simp
  have 3: "map_of s_noctx ''question'' = Some ''q'' \<and> map_of s_noctx ''expected_answer'' = Some ''a''
      \<and> qa_chain env_ok ''q'' = Inr \<lparr> answer_text = ''an answer'', source_documents = [''a chunk''] \<rparr>"
    by code_simp
  note t = missing_context_fails_run [OF 1 2, of env_ok "[]" "''q''" "''a''"
      "\<lparr> answer_text = ''an answer'', source_documents = [''a chunk''] \<rparr>" 1]
  have 4: "evaluate_sample env_ok 1 s_noctx = Inl (KeyError ''context'')"
    by (rule t [THEN conjunct2, THEN mp, OF 3])
  from 1 2 t [THEN conjunct1] 4 show ?thesis by (intro conjI) assumption+
qed

text \<open>
  The claim as stated fails: one sample without \<open>context\<close> ends the run with
  \<open>KeyError\<close>, and nothing has been logged for it.
\<close>

theorem missing_context_counterexample:
  "evaluate_rag_system env_ok [s_noctx] [] = (Inl (KeyError ''context''), [])"
  by code_simp

text \<open>
  The monitoring notebook, by contrast, has an optional reference: without a reference
  summary \<open>process_video\<close> computes no ROUGE score and still records the latency and the
  resource usage.
\<close>

lemma process_video_without_reference:
  assumes "transcripts env vid = Inr segments" and "summarizer env (join '' '' segments) = Inr summary"
  shows "process_video env vid None st =
           Inr ((summary, [(''latency'', end_time env - start_time env), (''cpu_percent'', cpu_percent env),
                           (''memory_mb'', memory_rss env / 1024 / 1024)]),
                snd (log_performance (end_time env - start_time env) [] (measure_resource_usage env) st))"
  using assms
  by (simp add: process_video_def measure_latency_def falsy_simps log_performance_def Let_def
      measure_resource_usage_def dict_merge_def)

lemma process_video_without_reference_example:
  "process_video monitor_env_ok ''abc123'' None empty_monitor =
     Inr ((''a summary'', [(''latency'', 1 / 2), (''cpu_percent'', 5), (''memory_mb'', 100)]),
          \<lparr> metrics_history = [[(''latency'', 1 / 2), (''cpu_percent'', 5), (''memory_mb'', 100)]] \<rparr>,
          [\<lparr> run_metrics = [(''latency'', 1 / 2), (''cpu_percent'', 5), (''memory_mb'', 100)],
              run_params = [(''model_name'', ''facebook/bart-large-cnn'')] \<rparr>])"
  by code_simp

section \<open>Properties of the monitor\<close>





section \<open>Properties of the Chunker of the specification\<close>























text \<open>
  Claim C3 (on the Chunker modelled from the specification). The document
  \<open>A B C D E F G H\<close> with chunks of at most 3 words and an overlap of 1 word gives
  the four chunks \<open>A B C\<close>, \<open>C D E\<close>, \<open>E F G\<close> and \<open>G H\<close>, numbered from 0.
\<close>

theorem chunking_scenario:
  "map_sum id (map (\<lambda>c. (sequence_index c, chunk_text c)))
     (chunker \<lparr> max_chunk_size = 3, overlap = 1 \<rparr> ''A B C D E F G H'') =
   Inr [(0, ''A B C''), (1, ''C D E''), (2, ''E F G''), (3, ''G H'')]"
  by code_simp

end
